theory Spec2Isabelle
  imports Complex_Main "HOL-Library.Sublist" "HOL-Library.Multiset"
begin

section \<open>Python values, errors and the built-ins the recommender calls\<close>

text \<open>
  The recommender of \<^verbatim>\<open>yoga_recommender.py\<close> works on MongoDB documents, which
  pymongo returns as dictionaries. A field of a document holds a value of any BSON type;
  the values that matter here are strings, integers and \<^verbatim>\<open>None\<close> (a BSON null).
  Strings are ASCII text. A raised exception is a value \<open>Inl e\<close> of a sum type.
\<close>

datatype pyval = PyNone | PyInt int | PyStr string

datatype error =
    ValueError
  | TypeError
  | KeyError
  | AttributeError
  | IndexError
  | ModelUnavailable

text \<open>\<^verbatim>\<open>str.lower()\<close>, on ASCII letters.\<close>

definition lower_char :: "char \<Rightarrow> char" where
  "lower_char c =
     (case map_of (zip ''ABCDEFGHIJKLMNOPQRSTUVWXYZ'' ''abcdefghijklmnopqrstuvwxyz'') c of
        None \<Rightarrow> c
      | Some d \<Rightarrow> d)"

definition lower :: "string \<Rightarrow> string" where
  "lower s = map lower_char s"

text \<open>
  \<^verbatim>\<open>x.lower()\<close> on a value: only a string has the method, any other value raises
  \<^verbatim>\<open>AttributeError\<close>.
\<close>

fun py_lower :: "pyval \<Rightarrow> error + string" where
  "py_lower (PyStr s) = Inr (lower s)"
| "py_lower v = Inl AttributeError"

text \<open>
  \<^verbatim>\<open>int(s)\<close> on a string: surrounding whitespace is dropped (tab, line feed, vertical
  tab, form feed, carriage return and space; the separators 28 to 31 are not whitespace
  for \<^verbatim>\<open>int\<close>), one sign is allowed, then decimal digits follow, where single
  underscores may stand between two digits. A string of more than 4300 digits is refused,
  leading zeros counted and underscores not: the limit of the interpreter. Anything else
  raises \<^verbatim>\<open>ValueError\<close> as well, here \<open>None\<close>.
\<close>

definition is_space :: "char \<Rightarrow> bool" where
  "is_space c = ((of_char c :: nat) \<in> {9, 10, 11, 12, 13, 32})"

definition strip :: "string \<Rightarrow> string" where
  "strip s = rev (dropWhile is_space (rev (dropWhile is_space s)))"

definition digit_val :: "char \<Rightarrow> int option" where
  "digit_val c = map_of (zip ''0123456789'' [0, 1, 2, 3, 4, 5, 6, 7, 8, 9]) c"

fun parse_digits :: "int \<Rightarrow> string \<Rightarrow> int option" where
  "parse_digits acc [] = Some acc"
| "parse_digits acc (c # cs) =
     (if c = CHR ''_'' then
        (case cs of
           [] \<Rightarrow> None
         | d # ds \<Rightarrow>
             (case digit_val d of
                None \<Rightarrow> None
              | Some v \<Rightarrow> parse_digits (10 * acc + v) ds))
      else
        (case digit_val c of
           None \<Rightarrow> None
         | Some v \<Rightarrow> parse_digits (10 * acc + v) cs))"

definition int_max_str_digits :: nat where
  "int_max_str_digits = 4300"

definition parse_unsigned :: "string \<Rightarrow> int option" where
  "parse_unsigned s =
     (case s of
        [] \<Rightarrow> None
      | d # ds \<Rightarrow>
          (case digit_val d of
             None \<Rightarrow> None
           | Some v \<Rightarrow>
               if int_max_str_digits < length (filter (\<lambda>c. digit_val c \<noteq> None) s) then None
               else parse_digits v ds))"

definition int_of_str :: "string \<Rightarrow> int option" where
  "int_of_str s =
     (case strip s of
        [] \<Rightarrow> None
      | c # cs \<Rightarrow>
          if c = CHR ''-'' then map_option uminus (parse_unsigned cs)
          else if c = CHR ''+'' then parse_unsigned cs
          else parse_unsigned (c # cs))"

text \<open>
  \<^verbatim>\<open>int(x)\<close> on a value: an integer is returned as it is, a string is parsed,
  \<^verbatim>\<open>None\<close> raises \<^verbatim>\<open>TypeError\<close>.
\<close>

fun py_int :: "pyval \<Rightarrow> error + int" where
  "py_int (PyInt n) = Inr n"
| "py_int (PyStr s) = (case int_of_str s of None \<Rightarrow> Inl ValueError | Some n \<Rightarrow> Inr n)"
| "py_int PyNone = Inl TypeError"

section \<open>The catalog and the recommender's state\<close>

text \<open>
  A catalog entry is the dictionary that \<^verbatim>\<open>collection.find\<close> returns for the
  projection of \<^verbatim>\<open>__init__\<close>: \<^verbatim>\<open>_id\<close>, which MongoDB gives every document, and
  the seven projected fields, each of which a document may lack (\<open>None\<close>). The benefit
  labels, steps and contraindications are lists of strings.
\<close>

record asana =
  doc_id :: nat
  doc_asana :: "string option"
  doc_age :: "pyval option"
  doc_gender :: "pyval option"
  doc_health_benefits :: "string list option"
  doc_pose_direction :: "string list option"
  doc_contraindications :: "string list option"
  doc_image_url :: "string option"

text \<open>
  The fields of a \<^verbatim>\<open>YogaAsanaRecommender\<close>. The loaded sentence-transformer model is
  its \<^verbatim>\<open>encode\<close> function from a text to a vector of type \<open>'v\<close>; the FAISS index is
  the list of the vectors added to it.
\<close>

record 'v recommender =
  asanas :: "asana list"
  asana_map :: "string \<rightharpoonup> asana list"
  health_benefits :: "string list"
  model :: "(string \<Rightarrow> 'v) option"
  index :: "'v list option"

text \<open>\<^verbatim>\<open>d.get(key, [])\<close> on a dictionary of lists.\<close>

definition dict_get :: "('k \<rightharpoonup> 'a list) \<Rightarrow> 'k \<Rightarrow> 'a list" where
  "dict_get m k = (case m k of None \<Rightarrow> [] | Some xs \<Rightarrow> xs)"

text \<open>
  A Python set of strings is kept as a list without repetition; \<^verbatim>\<open>s.add(x)\<close> leaves
  the set as it is when \<open>x\<close> is a member.
\<close>

definition set_add :: "'a \<Rightarrow> 'a list \<Rightarrow> 'a list" where
  "set_add x xs = (if x \<in> set xs then xs else xs @ [x])"

subsection \<open>\<^verbatim>\<open>__init__\<close>: the vocabulary and the reverse index\<close>

text \<open>
  The inner loop of \<^verbatim>\<open>__init__\<close> over the benefit labels of one asana, and the outer
  loop over the catalog. The state of the loops is the set \<^verbatim>\<open>health_benefits\<close> and
  the dictionary \<^verbatim>\<open>asana_map\<close>.
\<close>

fun index_benefits ::
  "asana \<Rightarrow> string list \<Rightarrow> string list \<times> (string \<rightharpoonup> asana list)
    \<Rightarrow> string list \<times> (string \<rightharpoonup> asana list)" where
  "index_benefits a [] acc = acc"
| "index_benefits a (b # bs) (hb, m) =
     index_benefits a bs (set_add b hb, m(b \<mapsto> dict_get m b @ [a]))"

definition benefits_of :: "asana \<Rightarrow> string list" where
  "benefits_of a = (case doc_health_benefits a of None \<Rightarrow> [] | Some bs \<Rightarrow> bs)"

fun index_asanas ::
  "asana list \<Rightarrow> string list \<times> (string \<rightharpoonup> asana list)
    \<Rightarrow> string list \<times> (string \<rightharpoonup> asana list)" where
  "index_asanas [] acc = acc"
| "index_asanas (a # as) acc = index_asanas as (index_benefits a (benefits_of a) acc)"

text \<open>
  The constructor, from the documents \<open>docs\<close> that the collection holds.
  \<^verbatim>\<open>list(self.health_benefits)\<close> lists the members of the set in an order that
  Python does not fix: \<open>list_of_set\<close> is that rearrangement.
\<close>

definition YogaAsanaRecommender ::
  "(string list \<Rightarrow> string list) \<Rightarrow> asana list \<Rightarrow> 'v recommender" where
  "YogaAsanaRecommender list_of_set docs =
     (case index_asanas docs ([], Map.empty) of
        (hb, m) \<Rightarrow>
          \<lparr>asanas = docs, asana_map = m, health_benefits = list_of_set hb,
           model = None, index = None\<rparr>)"

subsection \<open>\<^verbatim>\<open>load_model\<close> and \<^verbatim>\<open>build_faiss_index\<close>\<close>

text \<open>
  \<open>hub\<close> is the constructor \<^verbatim>\<open>SentenceTransformer\<close>: it fetches the model of a given
  name, or raises. With an empty vocabulary \<^verbatim>\<open>encode\<close> returns an array of shape
  \<^verbatim>\<open>(0,)\<close>, and \<^verbatim>\<open>embeddings.shape[1]\<close> at line 47 raises \<^verbatim>\<open>IndexError\<close>:
  no index is built, while the model that line 45 loaded stays loaded.
\<close>

definition load_model ::
  "(string \<Rightarrow> error + (string \<Rightarrow> 'v)) \<Rightarrow> 'v recommender \<Rightarrow> error + 'v recommender" where
  "load_model hub s =
     (case model s of
        None \<Rightarrow>
          (case hub ''jashwanthakula26/yoga-asana-model'' of
             Inl e \<Rightarrow> Inl e
           | Inr m \<Rightarrow> Inr (s\<lparr>model := Some m\<rparr>))
      | Some m \<Rightarrow> Inr s)"

definition build_faiss_index ::
  "(string \<Rightarrow> error + (string \<Rightarrow> 'v)) \<Rightarrow> 'v recommender \<Rightarrow> error + 'v recommender" where
  "build_faiss_index hub s =
     (case index s of
        None \<Rightarrow>
          (case load_model hub s of
             Inl e \<Rightarrow> Inl e
           | Inr s1 \<Rightarrow>
               (case model s1 of
                  None \<Rightarrow> Inl AttributeError
                | Some encode \<Rightarrow>
                    if health_benefits s1 = [] then Inl IndexError
                    else Inr (s1\<lparr>index := Some (map encode (health_benefits s1))\<rparr>)))
      | Some xb \<Rightarrow> Inr s)"

subsection \<open>\<^verbatim>\<open>find_all_matching_benefits\<close>\<close>

text \<open>
  \<^verbatim>\<open>IndexFlatL2.search(x, k)\<close>: the exact search. It pairs every stored vector's
  distance to \<open>x\<close> with the vector's position, in ascending order of distance, and
  returns the first \<open>k\<close> pairs. \<open>l2\<close> is the distance the index computes, a real number
  whatever its rounding. The caller's \<open>k\<close> is never more than the number of stored
  vectors. Pairs at the same distance stand in the order of their positions; the theorems
  on the search speak of the labels returned, not of their order.
\<close>

definition IndexFlatL2_search ::
  "('v \<Rightarrow> 'v \<Rightarrow> real) \<Rightarrow> 'v list \<Rightarrow> 'v \<Rightarrow> nat \<Rightarrow> (real \<times> nat) list" where
  "IndexFlatL2_search l2 xb x k = take k (sort_key fst (zip (map (l2 x) xb) [0..<length xb]))"

text \<open>
  The comprehension
  \<^verbatim>\<open>[self.health_benefits[idx] for dist, idx in zip(...) if dist < similarity_threshold]\<close>;
  an index beyond the list raises \<^verbatim>\<open>IndexError\<close>.
\<close>

fun select_labels :: "string list \<Rightarrow> real \<Rightarrow> (real \<times> nat) list \<Rightarrow> error + string list" where
  "select_labels hb threshold [] = Inr []"
| "select_labels hb threshold ((distance, idx) # rest) =
     (if distance < threshold then
        (if idx < length hb then
           (case select_labels hb threshold rest of
              Inl e \<Rightarrow> Inl e
            | Inr labels \<Rightarrow> Inr (hb ! idx # labels))
         else Inl IndexError)
      else select_labels hb threshold rest)"

definition find_all_matching_benefits ::
  "(string \<Rightarrow> error + (string \<Rightarrow> 'v)) \<Rightarrow> ('v \<Rightarrow> 'v \<Rightarrow> real) \<Rightarrow> 'v recommender
    \<Rightarrow> string \<Rightarrow> real \<Rightarrow> error + ('v recommender \<times> string list)" where
  "find_all_matching_benefits hub l2 s user_input similarity_threshold =
     (case build_faiss_index hub s of
        Inl e \<Rightarrow> Inl e
      | Inr s1 \<Rightarrow>
          (case model s1 of
             None \<Rightarrow> Inl AttributeError
           | Some encode \<Rightarrow>
               (case index s1 of
                  None \<Rightarrow> Inl AttributeError
                | Some xb \<Rightarrow>
                    (case select_labels (health_benefits s1) similarity_threshold
                            (IndexFlatL2_search l2 xb (encode user_input)
                               (length (health_benefits s1))) of
                       Inl e \<Rightarrow> Inl e
                     | Inr labels \<Rightarrow> Inr (s1, labels)))))"

subsection \<open>\<^verbatim>\<open>recommend_asanas\<close>\<close>

text \<open>
  Lines 66 to 69: the age of the asana, \<open>0\<close> when the field is absent or when
  \<^verbatim>\<open>int\<close> raises \<^verbatim>\<open>ValueError\<close>. Any other exception is not caught.
\<close>

definition asana_age :: "asana \<Rightarrow> error + int" where
  "asana_age a =
     (case py_int (case doc_age a of None \<Rightarrow> PyInt 0 | Some v \<Rightarrow> v) of
        Inl ValueError \<Rightarrow> Inr 0
      | Inl e \<Rightarrow> Inl e
      | Inr n \<Rightarrow> Inr n)"

text \<open>
  The disjunction of line 71. Its first operand reads the gender with the default
  \<^verbatim>\<open>"all"\<close>; its second operand, evaluated only when the first is false, reads
  \<^verbatim>\<open>asana["gender"]\<close>, which raises \<^verbatim>\<open>KeyError\<close> when the field is absent.
\<close>

definition gender_matches :: "asana \<Rightarrow> string \<Rightarrow> error + bool" where
  "gender_matches a gender =
     (case py_lower (case doc_gender a of None \<Rightarrow> PyStr ''all'' | Some v \<Rightarrow> v) of
        Inl e \<Rightarrow> Inl e
      | Inr g \<Rightarrow>
          if g = gender then Inr True
          else
            (case doc_gender a of
               None \<Rightarrow> Inl KeyError
             | Some v \<Rightarrow>
                 (case py_lower v of
                    Inl e \<Rightarrow> Inl e
                  | Inr g' \<Rightarrow> Inr (g' = ''all''))))"

text \<open>
  The condition of line 71 after the age of the asana is known: \<^verbatim>\<open>int(age)\<close> is
  evaluated first, and the gender only when the age test holds.
\<close>

definition admits :: "asana \<Rightarrow> pyval \<Rightarrow> string \<Rightarrow> error + bool" where
  "admits a age gender =
     (case asana_age a of
        Inl e \<Rightarrow> Inl e
      | Inr min_age \<Rightarrow>
          (case py_int age of
             Inl e \<Rightarrow> Inl e
           | Inr n \<Rightarrow> if min_age \<le> n then gender_matches a gender else Inr False))"

text \<open>
  The inner loop over the asanas of one benefit and the outer loop over the matched
  benefits. The state of the loops is \<^verbatim>\<open>seen_asanas\<close> and
  \<^verbatim>\<open>recommended_asanas\<close>.
\<close>

fun recommend_inner ::
  "pyval \<Rightarrow> string \<Rightarrow> asana list \<Rightarrow> nat set \<times> asana list \<Rightarrow> error + (nat set \<times> asana list)" where
  "recommend_inner age gender [] st = Inr st"
| "recommend_inner age gender (a # as) (seen_asanas, recommended_asanas) =
     (case admits a age gender of
        Inl e \<Rightarrow> Inl e
      | Inr ok \<Rightarrow>
          if ok \<and> doc_id a \<notin> seen_asanas then
            recommend_inner age gender as
              (insert (doc_id a) seen_asanas, recommended_asanas @ [a])
          else recommend_inner age gender as (seen_asanas, recommended_asanas))"

fun recommend_outer ::
  "(string \<rightharpoonup> asana list) \<Rightarrow> pyval \<Rightarrow> string \<Rightarrow> string list \<Rightarrow> nat set \<times> asana list
    \<Rightarrow> error + (nat set \<times> asana list)" where
  "recommend_outer amap age gender [] st = Inr st"
| "recommend_outer amap age gender (benefit # benefits) st =
     (case recommend_inner age gender (dict_get amap benefit) st of
        Inl e \<Rightarrow> Inl e
      | Inr st' \<Rightarrow> recommend_outer amap age gender benefits st')"

definition recommend_asanas ::
  "(string \<Rightarrow> error + (string \<Rightarrow> 'v)) \<Rightarrow> ('v \<Rightarrow> 'v \<Rightarrow> real) \<Rightarrow> 'v recommender
    \<Rightarrow> string \<Rightarrow> pyval \<Rightarrow> string \<Rightarrow> error + ('v recommender \<times> asana list)" where
  "recommend_asanas hub l2 s user_input age gender =
     (case find_all_matching_benefits hub l2 s user_input (6 / 10) of
        Inl e \<Rightarrow> Inl e
      | Inr (s1, matching_benefits) \<Rightarrow>
          (case recommend_outer (asana_map s1) age gender matching_benefits ({}, []) of
             Inl e \<Rightarrow> Inl e
           | Inr (seen_asanas, recommended_asanas) \<Rightarrow> Inr (s1, recommended_asanas)))"

section \<open>Auxiliary definitions\<close>

text \<open>
  The asanas that one run of the inner loop appends to \<^verbatim>\<open>recommended_asanas\<close>, as a
  function of the identifiers seen before the run: the list the loop is compared with.
\<close>

fun admitted :: "pyval \<Rightarrow> string \<Rightarrow> nat set \<Rightarrow> asana list \<Rightarrow> asana list" where
  "admitted age gender seen [] = []"
| "admitted age gender seen (a # as) =
     (if admits a age gender = Inr True \<and> doc_id a \<notin> seen
      then a # admitted age gender (insert (doc_id a) seen) as
      else admitted age gender seen as)"

text \<open>
  A catalog entry on which line 67 and line 71 raise no exception of their own: its age is
  not \<^verbatim>\<open>None\<close> and its gender is a string.
\<close>

definition well_typed :: "asana \<Rightarrow> bool" where
  "well_typed a =
     (doc_age a \<noteq> Some PyNone \<and>
      (case doc_gender a of Some (PyStr g) \<Rightarrow> True | _ \<Rightarrow> False))"

text \<open>
  The invariant of the lazily built index: once built, it holds the embeddings of the
  vocabulary under the loaded model, in the order of the vocabulary.
\<close>

definition consistent :: "'v recommender \<Rightarrow> bool" where
  "consistent s =
     (case index s of
        None \<Rightarrow> True
      | Some xb \<Rightarrow>
          (case model s of
             None \<Rightarrow> False
           | Some encode \<Rightarrow> xb = map encode (health_benefits s)))"

section \<open>An example catalog\<close>

text \<open>
  Three asanas, a toy embedding (the length of the text) and the squared difference as
  distance: the inputs on which the theorems below are evaluated.
\<close>

definition child_pose :: asana where
  "child_pose =
     \<lparr>doc_id = 1, doc_asana = Some ''Child Pose'', doc_age = Some (PyStr ''All''),
      doc_gender = Some (PyStr ''Female''),
      doc_health_benefits = Some [''back pain'', ''stress relief''],
      doc_pose_direction = Some [''Kneel'', ''Fold forward''],
      doc_contraindications = Some [''Knee injury''], doc_image_url = None\<rparr>"

definition tree_pose :: asana where
  "tree_pose =
     \<lparr>doc_id = 2, doc_asana = Some ''Tree Pose'', doc_age = Some (PyInt 10),
      doc_gender = Some (PyStr ''All''),
      doc_health_benefits = Some [''stress relief''],
      doc_pose_direction = Some [''Stand on one leg''],
      doc_contraindications = None, doc_image_url = None\<rparr>"

definition cobra_pose :: asana where
  "cobra_pose =
     \<lparr>doc_id = 3, doc_asana = Some ''Cobra Pose'', doc_age = None,
      doc_gender = None,
      doc_health_benefits = Some [''posture''],
      doc_pose_direction = None,
      doc_contraindications = None, doc_image_url = None\<rparr>"

definition warrior_pose :: asana where
  "warrior_pose =
     \<lparr>doc_id = 4, doc_asana = Some ''Warrior Pose'', doc_age = Some PyNone,
      doc_gender = Some (PyStr ''all''),
      doc_health_benefits = Some [''balance''],
      doc_pose_direction = None,
      doc_contraindications = None, doc_image_url = None\<rparr>"

definition example_encode :: "string \<Rightarrow> real" where
  "example_encode t = real (length t)"

definition example_hub :: "string \<Rightarrow> error + (string \<Rightarrow> real)" where
  "example_hub name = Inr example_encode"

definition example_l2 :: "real \<Rightarrow> real \<Rightarrow> real" where
  "example_l2 x y = (x - y) * (x - y)"

definition example_catalog :: "asana list" where
  "example_catalog = [child_pose, tree_pose, cobra_pose]"

definition example_recommender :: "real recommender" where
  "example_recommender = YogaAsanaRecommender rev example_catalog"

definition example_built :: "real recommender" where
  "example_built =
     example_recommender\<lparr>model := Some example_encode,
       index := Some (map example_encode (health_benefits example_recommender))\<rparr>"

text \<open>A catalog of one asana whose age is a BSON null, and a catalog of no asana.\<close>

definition null_age_recommender :: "real recommender" where
  "null_age_recommender = YogaAsanaRecommender rev [warrior_pose]"

definition null_age_built :: "real recommender" where
  "null_age_built =
     null_age_recommender\<lparr>model := Some example_encode,
       index := Some (map example_encode (health_benefits null_age_recommender))\<rparr>"

definition empty_recommender :: "real recommender" where
  "empty_recommender = YogaAsanaRecommender rev []"

text \<open>The built example with another vector in its index than the vocabulary's.\<close>

definition stale_built :: "real recommender" where
  "stale_built = example_built\<lparr>index := Some [42]\<rparr>"

section \<open>The loops of \<^verbatim>\<open>recommend_asanas\<close>\<close>

lemma recommend_inner_append:
  "recommend_inner age gender (xs @ ys) st =
     (case recommend_inner age gender xs st of
        Inl e \<Rightarrow> Inl e
      | Inr st' \<Rightarrow> recommend_inner age gender ys st')"
proof (induction xs arbitrary: st)
  case Nil
  show ?case by simp
next
  case (Cons a xs)
  obtain seen recd where st: "st = (seen, recd)" by (cases st)
  show ?case unfolding st by (simp add: Cons.IH split: sum.splits)
qed

lemma recommend_outer_concat:
  "recommend_outer amap age gender benefits st =
     recommend_inner age gender (concat (map (dict_get amap) benefits)) st"
proof (induction benefits arbitrary: st)
  case Nil
  show ?case by simp
next
  case (Cons b bs)
  show ?case by (simp add: recommend_inner_append Cons.IH split: sum.splits)
qed

lemma recommend_inner_admitted:
  "recommend_inner age gender xs (seen, recd) = Inr st' \<Longrightarrow>
     st' = (seen \<union> doc_id ` set (admitted age gender seen xs),
            recd @ admitted age gender seen xs)"
proof (induction xs arbitrary: seen recd)
  case Nil
  then show ?case by simp
next
  case (Cons a xs)
  from Cons.prems obtain ok where ok: "admits a age gender = Inr ok"
    by (auto split: sum.splits)
  show ?case
  proof (cases "ok \<and> doc_id a \<notin> seen")
    case True
    with Cons.prems ok
    have "recommend_inner age gender xs (insert (doc_id a) seen, recd @ [a]) = Inr st'"
      by simp
    from Cons.IH [OF this] True ok show ?thesis by simp
  next
    case False
    with Cons.prems ok have "recommend_inner age gender xs (seen, recd) = Inr st'"
      by auto
    from Cons.IH [OF this] False ok show ?thesis by auto
  qed
qed

lemma recommend_inner_returns:
  "(\<exists>st'. recommend_inner age gender xs st = Inr st') \<longleftrightarrow>
     (\<forall>a\<in>set xs. \<exists>ok. admits a age gender = Inr ok)"
proof (induction xs arbitrary: st)
  case Nil
  show ?case by simp
next
  case (Cons a xs)
  obtain seen recd where st: "st = (seen, recd)" by (cases st)
  show ?case unfolding st using Cons.IH by (auto split: sum.splits)
qed

lemma subseq_admitted: "subseq (admitted age gender seen xs) xs"
  by (induction xs arbitrary: seen) auto

lemma admitted_fresh: "a \<in> set (admitted age gender seen xs) \<Longrightarrow> doc_id a \<notin> seen"
  by (induction xs arbitrary: seen) (auto split: if_splits)

lemma distinct_admitted: "distinct (map doc_id (admitted age gender seen xs))"
  by (induction xs arbitrary: seen) (auto dest: admitted_fresh)

lemma admitted_admits:
  "a \<in> set (admitted age gender seen xs) \<Longrightarrow> a \<in> set xs \<and> admits a age gender = Inr True"
  by (induction xs arbitrary: seen) (auto split: if_splits)

lemma admitted_covers:
  "a \<in> set xs \<Longrightarrow> admits a age gender = Inr True \<Longrightarrow>
     doc_id a \<in> seen \<union> doc_id ` set (admitted age gender seen xs)"
  by (induction xs arbitrary: seen) auto

lemma admitted_member:
  assumes "a \<in> set xs" "admits a age gender = Inr True" "doc_id a \<notin> seen"
    and "inj_on doc_id (set xs)"
  shows "a \<in> set (admitted age gender seen xs)"
proof -
  from admitted_covers [OF assms(1,2), of seen] assms(3)
  obtain r where r: "r \<in> set (admitted age gender seen xs)" "doc_id r = doc_id a" by auto
  from admitted_admits [OF r(1)] have "r \<in> set xs" by simp
  with assms(1,4) r(2) have "r = a" by (auto dest: inj_onD)
  with r(1) show ?thesis by simp
qed

lemma admitted_append:
  "admitted age gender seen (xs @ ys) =
     admitted age gender seen xs @
     admitted age gender (seen \<union> doc_id ` set (admitted age gender seen xs)) ys"
  by (induction xs arbitrary: seen) auto

lemma admitted_replicate_seen:
  "doc_id a \<in> seen \<Longrightarrow>
     admitted age gender seen (replicate k a @ rest) = admitted age gender seen rest"
  by (induction k) auto

lemma admitted_replicate:
  "admitted age gender seen (replicate k a @ rest) =
     (if 0 < k \<and> admits a age gender = Inr True \<and> doc_id a \<notin> seen
      then a # admitted age gender (insert (doc_id a) seen) rest
      else admitted age gender seen rest)"
proof (induction k)
  case 0
  show ?case by simp
next
  case (Suc k)
  show ?case
  proof (cases "admits a age gender = Inr True \<and> doc_id a \<notin> seen")
    case True
    then show ?thesis by (simp add: admitted_replicate_seen)
  next
    case False
    then show ?thesis using Suc.IH by auto
  qed
qed

lemma subseq_admitted_catalog:
  "subseq (admitted age gender seen (concat (map (\<lambda>a. replicate (k a) a) docs))) docs"
proof (induction docs arbitrary: seen)
  case Nil
  show ?case by simp
next
  case (Cons a docs)
  have "subseq (admitted age gender seen (concat (map (\<lambda>a. replicate (k a) a) docs)))
      (a # docs)"
    by (rule list_emb_Cons) (rule Cons.IH)
  then show ?case by (simp add: admitted_replicate Cons.IH)
qed

lemma count_list_distinct:
  assumes "distinct xs" "x \<in> set xs"
  shows "count_list xs x = 1"
  using assms by (induction xs) auto

section \<open>From \<^verbatim>\<open>recommend_asanas\<close> to its loops\<close>

lemma build_faiss_index_fields:
  "build_faiss_index hub s = Inr s1 \<Longrightarrow>
     asanas s1 = asanas s \<and> asana_map s1 = asana_map s \<and> health_benefits s1 = health_benefits s"
  by (auto simp: build_faiss_index_def load_model_def
      split: option.splits sum.splits if_splits)

lemma find_all_matching_benefits_fields:
  "find_all_matching_benefits hub l2 s user_input threshold = Inr (s1, labels) \<Longrightarrow>
     asanas s1 = asanas s \<and> asana_map s1 = asana_map s \<and> health_benefits s1 = health_benefits s"
  by (auto simp: find_all_matching_benefits_def dest: build_faiss_index_fields
      split: option.splits sum.splits)

lemma recommend_asanas_matching:
  assumes "find_all_matching_benefits hub l2 s user_input (6 / 10) = Inr (s1, matching)"
  shows "recommend_asanas hub l2 s user_input age gender =
     (case recommend_inner age gender (concat (map (dict_get (asana_map s)) matching)) ({}, []) of
        Inl e \<Rightarrow> Inl e
      | Inr (seen, recommended) \<Rightarrow> Inr (s1, recommended))"
proof -
  have "asana_map s1 = asana_map s"
    using find_all_matching_benefits_fields [OF assms] by simp
  then show ?thesis
    unfolding recommend_asanas_def assms by (simp add: recommend_outer_concat)
qed

lemma recommend_asanas_admitted:
  assumes "recommend_asanas hub l2 s user_input age gender = Inr (s', recommended)"
  shows "\<exists>matching.
     find_all_matching_benefits hub l2 s user_input (6 / 10) = Inr (s', matching) \<and>
     (\<forall>a\<in>set (concat (map (dict_get (asana_map s)) matching)). \<exists>ok. admits a age gender = Inr ok) \<and>
     recommended = admitted age gender {} (concat (map (dict_get (asana_map s)) matching))"
proof -
  from assms obtain s1 matching where
    m: "find_all_matching_benefits hub l2 s user_input (6 / 10) = Inr (s1, matching)"
    unfolding recommend_asanas_def by (auto split: sum.splits)
  let ?xs = "concat (map (dict_get (asana_map s)) matching)"
  from assms obtain seen where
    r: "recommend_inner age gender ?xs ({}, []) = Inr (seen, recommended)" and s1: "s1 = s'"
    unfolding recommend_asanas_matching [OF m] by (auto split: sum.splits)
  from recommend_inner_admitted [OF r] have "recommended = admitted age gender {} ?xs"
    by simp
  moreover from r have "\<forall>a\<in>set ?xs. \<exists>ok. admits a age gender = Inr ok"
    using recommend_inner_returns [of age gender ?xs "({}, [])"] by auto
  ultimately show ?thesis using m s1 by blast
qed

lemma recommend_asanas_member:
  assumes "recommend_asanas hub l2 s user_input age gender = Inr (s', recommended)"
    and "find_all_matching_benefits hub l2 s user_input (6 / 10) = Inr (s1, matching)"
    and "benefit \<in> set matching" and "a \<in> set (dict_get (asana_map s) benefit)"
    and "inj_on doc_id (set (concat (map (dict_get (asana_map s)) matching)))"
  shows "(\<exists>ok. admits a age gender = Inr ok) \<and>
     (a \<in> set recommended \<longleftrightarrow> admits a age gender = Inr True)"
proof -
  let ?xs = "concat (map (dict_get (asana_map s)) matching)"
  from recommend_asanas_admitted [OF assms(1)] assms(2)
  have ok: "\<forall>a\<in>set ?xs. \<exists>ok. admits a age gender = Inr ok"
    and rec: "recommended = admitted age gender {} ?xs"
    by auto
  from assms(3,4) have a: "a \<in> set ?xs" by auto
  have "a \<in> set recommended \<longleftrightarrow> admits a age gender = Inr True"
  proof
    assume "a \<in> set recommended"
    then show "admits a age gender = Inr True"
      unfolding rec by (simp add: admitted_admits)
  next
    assume "admits a age gender = Inr True"
    from admitted_member [OF a this _ assms(5), of "{}"] show "a \<in> set recommended"
      unfolding rec by simp
  qed
  with ok a show ?thesis by blast
qed

subsection \<open>The condition of line 71\<close>

lemma admits_string_gender:
  assumes "asana_age a = Inr min_age" "py_int age = Inr n" "doc_gender a = Some (PyStr g)"
  shows "admits a age gender = Inr (min_age \<le> n \<and> (lower g = gender \<or> lower g = ''all''))"
  using assms by (simp add: admits_def gender_matches_def)

lemma admits_Inr_ages:
  assumes "admits a age gender = Inr ok"
  shows "\<exists>min_age n. asana_age a = Inr min_age \<and> py_int age = Inr n"
  using assms by (auto simp: admits_def split: sum.splits)

lemma admits_user_age_error:
  assumes "py_int age = Inl e"
  shows "admits a age gender = (case asana_age a of Inl e' \<Rightarrow> Inl e' | Inr min_age \<Rightarrow> Inl e)"
  using assms by (simp add: admits_def split: sum.splits)

lemma asana_age_cases:
  "asana_age a =
     (case doc_age a of
        None \<Rightarrow> Inr 0
      | Some PyNone \<Rightarrow> Inl TypeError
      | Some (PyInt n) \<Rightarrow> Inr n
      | Some (PyStr t) \<Rightarrow> (case int_of_str t of None \<Rightarrow> Inr 0 | Some n \<Rightarrow> Inr n))"
  by (simp add: asana_age_def split: option.splits pyval.splits)

lemma well_typed_admits:
  assumes "well_typed a" "py_int age = Inr n"
  shows "\<exists>ok. admits a age gender = Inr ok"
proof -
  from assms(1) obtain g where g: "doc_gender a = Some (PyStr g)"
    by (auto simp: well_typed_def split: option.splits pyval.splits)
  from assms(1) have "doc_age a \<noteq> Some PyNone" by (simp add: well_typed_def)
  then have "\<exists>m. asana_age a = Inr m"
    by (simp add: asana_age_cases split: option.splits pyval.splits)
  then obtain m where "asana_age a = Inr m" ..
  from admits_string_gender [OF this assms(2) g] show ?thesis by blast
qed

lemma recommend_inner_raises:
  assumes "a \<in> set xs" "admits a age gender = Inl e"
  shows "\<exists>e'. recommend_inner age gender xs st = Inl e'"
proof (cases "recommend_inner age gender xs st")
  case (Inl e')
  then show ?thesis by blast
next
  case (Inr st')
  then have "\<forall>a\<in>set xs. \<exists>ok. admits a age gender = Inr ok"
    using recommend_inner_returns [of age gender xs st] by blast
  with assms show ?thesis by auto
qed

section \<open>The index and the search\<close>

lemma consistent_YogaAsanaRecommender: "consistent (YogaAsanaRecommender list_of_set docs)"
  by (simp add: consistent_def YogaAsanaRecommender_def split: prod.splits)

lemma build_faiss_index_consistent:
  assumes "consistent s" and "build_faiss_index hub s = Inr s1"
  shows "\<exists>encode. model s1 = Some encode \<and>
           index s1 = Some (map encode (health_benefits s)) \<and> consistent s1"
  using assms
  by (auto simp: build_faiss_index_def load_model_def consistent_def
      split: option.splits sum.splits if_splits)

lemma select_labels_in_range:
  assumes "\<forall>p\<in>set res. snd p < length hb"
  shows "select_labels hb threshold res =
           Inr (map (\<lambda>p. hb ! snd p) (filter (\<lambda>p. fst p < threshold) res))"
  using assms by (induction res) auto

lemma IndexFlatL2_search_all:
  "IndexFlatL2_search l2 xb x (length xb) =
     sort_key fst (map (\<lambda>i. (l2 x (xb ! i), i)) [0..<length xb])"
proof -
  have "zip (map (l2 x) xb) [0..<length xb] = map (\<lambda>i. (l2 x (xb ! i), i)) [0..<length xb]"
    by (rule nth_equalityI) simp_all
  then show ?thesis by (simp add: IndexFlatL2_search_def)
qed

lemma labels_mset:
  "mset (map (\<lambda>p. hb ! snd p)
           (filter (\<lambda>p. fst p < threshold)
              (sort_key fst (map (\<lambda>i. (d (hb ! i), i)) [0..<length hb])))) =
   mset (filter (\<lambda>b. d b < (threshold::real)) hb)"
proof -
  have "mset (map (\<lambda>p. hb ! snd p)
           (filter (\<lambda>p. fst p < threshold)
              (sort_key fst (map (\<lambda>i. (d (hb ! i), i)) [0..<length hb])))) =
        mset (map (\<lambda>p. hb ! snd p)
           (filter (\<lambda>p. fst p < threshold) (map (\<lambda>i. (d (hb ! i), i)) [0..<length hb])))"
    by simp
  also have "\<dots> = mset (filter (\<lambda>b. d b < threshold) (map (\<lambda>i. hb ! i) [0..<length hb]))"
    by (simp add: filter_map comp_def)
  also have "\<dots> = mset (filter (\<lambda>b. d b < threshold) hb)"
    by (simp add: map_nth)
  finally show ?thesis .
qed

section \<open>The constructor\<close>

lemma dict_get_empty: "dict_get Map.empty b = []"
  by (simp add: dict_get_def)

lemma index_benefits_entry:
  "dict_get (snd (index_benefits a bs (hb, m))) b = dict_get m b @ replicate (count_list bs b) a"
proof (induction bs arbitrary: hb m)
  case Nil
  show ?case by simp
next
  case (Cons x bs)
  show ?case
    by (simp add: Cons.IH replicate_app_Cons_same) (simp add: dict_get_def)
qed

lemma index_benefits_dom:
  "dom (snd (index_benefits a bs (hb, m))) = dom m \<union> set bs"
  by (induction bs arbitrary: hb m) auto

lemma index_benefits_vocabulary:
  "set (fst (index_benefits a bs (hb, m))) = set hb \<union> set bs \<and>
   (distinct hb \<longrightarrow> distinct (fst (index_benefits a bs (hb, m))))"
  by (induction bs arbitrary: hb m) (auto simp: set_add_def)

lemma index_asanas_entry:
  "dict_get (snd (index_asanas docs (hb, m))) b =
     dict_get m b @ concat (map (\<lambda>a. replicate (count_list (benefits_of a) b) a) docs)"
proof (induction docs arbitrary: hb m)
  case Nil
  show ?case by simp
next
  case (Cons a docs)
  obtain hb' m' where step: "index_benefits a (benefits_of a) (hb, m) = (hb', m')"
    by (cases "index_benefits a (benefits_of a) (hb, m)")
  have "dict_get m' b = dict_get m b @ replicate (count_list (benefits_of a) b) a"
    using index_benefits_entry [of a "benefits_of a" hb m b] step by simp
  then show ?case by (simp add: step Cons.IH)
qed

lemma index_asanas_dom:
  "dom (snd (index_asanas docs (hb, m))) = dom m \<union> (\<Union>a\<in>set docs. set (benefits_of a))"
proof (induction docs arbitrary: hb m)
  case Nil
  show ?case by simp
next
  case (Cons a docs)
  obtain hb' m' where step: "index_benefits a (benefits_of a) (hb, m) = (hb', m')"
    by (cases "index_benefits a (benefits_of a) (hb, m)")
  have "dom m' = dom m \<union> set (benefits_of a)"
    using index_benefits_dom [of a "benefits_of a" hb m] step by simp
  then show ?case by (auto simp: step Cons.IH)
qed

lemma index_asanas_vocabulary:
  "set (fst (index_asanas docs (hb, m))) = set hb \<union> (\<Union>a\<in>set docs. set (benefits_of a)) \<and>
   (distinct hb \<longrightarrow> distinct (fst (index_asanas docs (hb, m))))"
proof (induction docs arbitrary: hb m)
  case Nil
  show ?case by simp
next
  case (Cons a docs)
  obtain hb' m' where step: "index_benefits a (benefits_of a) (hb, m) = (hb', m')"
    by (cases "index_benefits a (benefits_of a) (hb, m)")
  have "set hb' = set hb \<union> set (benefits_of a) \<and> (distinct hb \<longrightarrow> distinct hb')"
    using index_benefits_vocabulary [of a "benefits_of a" hb m] step by simp
  then show ?case using Cons.IH [of hb' m'] by (auto simp: step)
qed

lemma YogaAsanaRecommender_fields:
  "asana_map (YogaAsanaRecommender list_of_set docs) = snd (index_asanas docs ([], Map.empty))"
  "health_benefits (YogaAsanaRecommender list_of_set docs) =
     list_of_set (fst (index_asanas docs ([], Map.empty)))"
  by (simp_all add: YogaAsanaRecommender_def split: prod.splits)

lemma asana_map_entry:
  "dict_get (asana_map (YogaAsanaRecommender list_of_set docs)) b =
     concat (map (\<lambda>a. replicate (count_list (benefits_of a) b) a) docs)"
  by (simp add: YogaAsanaRecommender_fields index_asanas_entry dict_get_empty)

lemma set_asana_map_entry:
  "set (dict_get (asana_map (YogaAsanaRecommender list_of_set docs)) b) =
     {a \<in> set docs. b \<in> set (benefits_of a)}"
  by (auto simp: asana_map_entry count_list_0_iff)

section \<open>Evaluating the example\<close>

lemma example_vocabulary:
  "health_benefits example_recommender = [''posture'', ''stress relief'', ''back pain'']"
  by (simp add: example_recommender_def YogaAsanaRecommender_def example_catalog_def
      benefits_of_def child_pose_def tree_pose_def cobra_pose_def set_add_def)

lemma example_asana_map:
  "dict_get (asana_map example_recommender) b =
     (if b = ''posture'' then [cobra_pose]
      else if b = ''stress relief'' then [child_pose, tree_pose]
      else if b = ''back pain'' then [child_pose] else [])"
  by (simp add: example_recommender_def YogaAsanaRecommender_def example_catalog_def
      benefits_of_def child_pose_def tree_pose_def cobra_pose_def set_add_def dict_get_def)

lemma example_build:
  "build_faiss_index example_hub example_recommender = Inr example_built"
proof -
  have "model example_recommender = None" "index example_recommender = None"
    by (simp_all add: example_recommender_def YogaAsanaRecommender_def split: prod.splits)
  then show ?thesis
    by (simp add: build_faiss_index_def load_model_def example_hub_def example_built_def
        example_vocabulary)
qed

lemma example_search:
  "find_all_matching_benefits example_hub example_l2 example_recommender ''stress relief'' (6 / 10)
     = Inr (example_built, [''stress relief''])"
  apply (simp add: find_all_matching_benefits_def example_build)
  apply (simp add: example_built_def example_vocabulary IndexFlatL2_search_def example_encode_def example_l2_def upt_rec)
  done

lemma example_admits:
  "admits child_pose (PyStr ''30'') ''female'' = Inr True"
  "admits child_pose (PyStr ''30'') ''Female'' = Inr False"
  "admits tree_pose (PyStr ''30'') ''female'' = Inr True"
  "admits tree_pose (PyStr ''30'') ''Female'' = Inr True"
  "admits tree_pose (PyStr ''9'') ''Female'' = Inr False"
  "admits cobra_pose (PyStr ''30'') ''female'' = Inl KeyError"
  by (simp_all add: admits_def asana_age_def gender_matches_def child_pose_def tree_pose_def cobra_pose_def
     int_of_str_def strip_def is_space_def parse_unsigned_def int_max_str_digits_def digit_val_def lower_def lower_char_def)

lemma example_run:
  "recommend_asanas example_hub example_l2 example_recommender ''stress relief'' (PyStr ''30'') ''female''
     = Inr (example_built, [child_pose, tree_pose])"
  unfolding recommend_asanas_def example_search
  by (simp add: example_built_def example_asana_map example_admits)
    (simp add: child_pose_def tree_pose_def)

lemma example_search_back_pain:
  "find_all_matching_benefits example_hub example_l2 example_recommender ''back pain'' (6 / 10)
     = Inr (example_built, [''back pain''])"
  apply (simp add: find_all_matching_benefits_def example_build)
  apply (simp add: example_built_def example_vocabulary IndexFlatL2_search_def example_encode_def example_l2_def upt_rec)
  done

lemma example_search_posture:
  "find_all_matching_benefits example_hub example_l2 example_recommender ''posture'' (6 / 10)
     = Inr (example_built, [''posture''])"
  apply (simp add: find_all_matching_benefits_def example_build)
  apply (simp add: example_built_def example_vocabulary IndexFlatL2_search_def example_encode_def example_l2_def upt_rec)
  done

lemma example_search_unrelated:
  "find_all_matching_benefits example_hub example_l2 example_recommender ''unrelated concern'' (6 / 10)
     = Inr (example_built, [])"
  apply (simp add: find_all_matching_benefits_def example_build)
  apply (simp add: example_built_def example_vocabulary IndexFlatL2_search_def example_encode_def example_l2_def upt_rec)
  done

lemma example_py_int:
  "py_int (PyStr ''30'') = Inr 30"
  "py_int (PyStr ''abc'') = Inl ValueError"
  "int_of_str ''All'' = None"
  by (simp_all add: int_of_str_def strip_def is_space_def parse_unsigned_def int_max_str_digits_def digit_val_def)

lemma example_admits_more:
  "admits child_pose (PyStr ''30'') ''male'' = Inr False"
  "admits tree_pose (PyStr ''30'') ''male'' = Inr True"
  "admits cobra_pose (PyStr ''30'') ''all'' = Inr True"
  "admits child_pose (PyStr ''abc'') ''female'' = Inl ValueError"
  by (simp_all add: admits_def asana_age_def gender_matches_def child_pose_def tree_pose_def cobra_pose_def
     int_of_str_def strip_def is_space_def parse_unsigned_def int_max_str_digits_def digit_val_def lower_def lower_char_def)

lemma example_candidates:
  "concat (map (dict_get (asana_map example_recommender)) [''stress relief'']) = [child_pose, tree_pose]"
  "concat (map (dict_get (asana_map example_recommender)) [''back pain'']) = [child_pose]"
  "concat (map (dict_get (asana_map example_recommender)) [''posture'']) = [cobra_pose]"
  "concat (map (dict_get (asana_map example_recommender)) []) = []"
  by (simp_all add: example_asana_map)

lemma example_ids: "doc_id child_pose = 1" "doc_id tree_pose = 2" "doc_id cobra_pose = 3"
  by (simp_all add: child_pose_def tree_pose_def cobra_pose_def)

lemma example_run_back_pain:
  "recommend_asanas example_hub example_l2 example_recommender ''back pain'' (PyStr ''30'') ''female''
     = Inr (example_built, [child_pose])"
  "recommend_asanas example_hub example_l2 example_recommender ''back pain'' (PyStr ''30'') ''Female''
     = Inr (example_built, [])"
  unfolding recommend_asanas_matching [OF example_search_back_pain] example_candidates
  by (simp_all add: example_admits)

lemma example_run_unrelated:
  "recommend_asanas example_hub example_l2 example_recommender ''unrelated concern'' (PyStr ''abc'') ''female''
     = Inr (example_built, [])"
  unfolding recommend_asanas_matching [OF example_search_unrelated] example_candidates
  by simp

lemma example_run_posture:
  "recommend_asanas example_hub example_l2 example_recommender ''posture'' (PyStr ''30'') ''female''
     = Inl KeyError"
  "recommend_asanas example_hub example_l2 example_recommender ''posture'' (PyStr ''30'') ''all''
     = Inr (example_built, [cobra_pose])"
  unfolding recommend_asanas_matching [OF example_search_posture] example_candidates
  by (simp_all add: example_admits example_admits_more)

lemma example_run_male:
  "recommend_asanas example_hub example_l2 example_recommender ''stress relief'' (PyStr ''30'') ''male''
     = Inr (example_built, [tree_pose])"
  unfolding recommend_asanas_matching [OF example_search] example_candidates
  by (simp add: example_admits_more)

lemma example_inner:
  "recommend_inner (PyStr ''30'') ''female'' (dict_get (asana_map example_recommender) ''stress relief'')
     ({}, []) = Inr ({1, 2}, [] @ [child_pose, tree_pose])"
  by (simp add: example_asana_map example_admits example_ids insert_commute)

lemma null_age_vocabulary: "health_benefits null_age_recommender = [''balance'']"
  by (simp add: null_age_recommender_def YogaAsanaRecommender_def benefits_of_def
      warrior_pose_def set_add_def)

lemma null_age_asana_map:
  "dict_get (asana_map null_age_recommender) ''balance'' = [warrior_pose]"
  by (simp add: null_age_recommender_def YogaAsanaRecommender_def benefits_of_def
      warrior_pose_def set_add_def dict_get_def)

lemma null_age_build:
  "build_faiss_index example_hub null_age_recommender = Inr null_age_built"
proof -
  have "model null_age_recommender = None" "index null_age_recommender = None"
    by (simp_all add: null_age_recommender_def YogaAsanaRecommender_def split: prod.splits)
  then show ?thesis
    by (simp add: build_faiss_index_def load_model_def example_hub_def null_age_built_def
        null_age_vocabulary)
qed

lemma null_age_search:
  "find_all_matching_benefits example_hub example_l2 null_age_recommender ''balance'' (6 / 10)
     = Inr (null_age_built, [''balance''])"
  apply (simp add: find_all_matching_benefits_def null_age_build)
  apply (simp add: null_age_built_def null_age_vocabulary IndexFlatL2_search_def
      example_encode_def example_l2_def upt_rec)
  done

lemma null_age_admits:
  "asana_age warrior_pose = Inl TypeError"
  "admits warrior_pose (PyStr ''30'') ''female'' = Inl TypeError"
  by (simp_all add: admits_def asana_age_def warrior_pose_def)

lemma null_age_run:
  "recommend_asanas example_hub example_l2 null_age_recommender ''balance'' (PyStr ''30'') ''female''
     = Inl TypeError"
  unfolding recommend_asanas_matching [OF null_age_search]
  by (simp add: null_age_asana_map null_age_admits)

lemma empty_search:
  "find_all_matching_benefits example_hub example_l2 empty_recommender ''back pain'' (6 / 10)
     = Inl IndexError"
  by (simp add: find_all_matching_benefits_def build_faiss_index_def load_model_def
      example_hub_def empty_recommender_def YogaAsanaRecommender_def)

lemma parse_unsigned_limit:
  "int_max_str_digits < length (filter (\<lambda>c. digit_val c \<noteq> None) s) \<Longrightarrow>
     parse_unsigned s = None"
  by (cases s) (auto simp: parse_unsigned_def split: option.splits if_splits)

lemma example_int_of_str:
  "int_of_str '' 30 '' = Some 30"
  "int_of_str ''-1_000'' = Some (- 1000)"
  "int_of_str ''1__0'' = None"
  "int_of_str (CHR 0x1C # ''50'') = None"
  "int_of_str (''50'' @ [CHR 0x1F]) = None"
  "int_of_str [] = None"
  by (simp_all add: int_of_str_def strip_def is_space_def parse_unsigned_def
      int_max_str_digits_def digit_val_def)

lemma int_of_str_too_long: "int_of_str (replicate 4301 (CHR ''1'')) = None"
proof -
  define s where "s = replicate 4300 (CHR ''1'')"
  have d: "digit_val (CHR ''1'') = Some 1" by (simp add: digit_val_def)
  have sp: "\<not> is_space (CHR ''1'')" by (simp add: is_space_def)
  have r: "replicate 4301 (CHR ''1'') = CHR ''1'' # s"
    unfolding s_def using replicate_Suc [of 4300 "CHR ''1''"] by simp
  have "dropWhile is_space (replicate n (CHR ''1'')) = replicate n (CHR ''1'')" for n
    by (cases n) (simp_all add: sp)
  then have "strip (replicate 4301 (CHR ''1'')) = replicate 4301 (CHR ''1'')"
    by (simp add: strip_def)
  then have st: "strip (CHR ''1'' # s) = CHR ''1'' # s" by (simp only: r)
  have "length (filter (\<lambda>c. digit_val c \<noteq> None) (CHR ''1'' # s)) = 4301"
    by (simp add: d s_def)
  then have "parse_unsigned (CHR ''1'' # s) = None"
    by (intro parse_unsigned_limit) (simp add: int_max_str_digits_def)
  with st show ?thesis unfolding r by (simp add: int_of_str_def)
qed

section \<open>The claims\<close>

text \<open>
  C2. The list that \<^verbatim>\<open>recommend_asanas\<close> returns never holds two asanas with the
  same \<^verbatim>\<open>_id\<close>, whatever the catalog, the query, the age and the gender; and an
  asana whose identifier is in \<^verbatim>\<open>seen_asanas\<close> is skipped: the loop goes on with
  both \<^verbatim>\<open>seen_asanas\<close> and \<^verbatim>\<open>recommended_asanas\<close> unchanged.
\<close>

theorem recommend_asanas_distinct_ids:
  "(recommend_asanas hub l2 s user_input age gender = Inr (s', recommended) \<longrightarrow>
      distinct (map doc_id recommended)) \<and>
   (doc_id a \<in> seen_asanas \<longrightarrow> admits a age gender = Inr ok \<longrightarrow>
      recommend_inner age gender (a # rest) (seen_asanas, recommended_asanas) =
      recommend_inner age gender rest (seen_asanas, recommended_asanas))"
proof (intro conjI impI)
  assume "recommend_asanas hub l2 s user_input age gender = Inr (s', recommended)"
  from recommend_asanas_admitted [OF this] show "distinct (map doc_id recommended)"
    by (auto simp: distinct_admitted)
next
  assume "doc_id a \<in> seen_asanas" "admits a age gender = Inr ok"
  then show "recommend_inner age gender (a # rest) (seen_asanas, recommended_asanas) =
      recommend_inner age gender rest (seen_asanas, recommended_asanas)"
    by simp
qed

text \<open>The example run for the query \<^verbatim>\<open>stress relief\<close>, and the second visit of the tree pose.\<close>

theorem recommend_asanas_distinct_ids_witness:
  "recommend_asanas example_hub example_l2 example_recommender ''stress relief''
      (PyStr ''30'') ''female'' = Inr (example_built, [child_pose, tree_pose]) \<and>
   distinct (map doc_id [child_pose, tree_pose]) \<and>
   doc_id tree_pose \<in> {1, 2} \<and>
   admits tree_pose (PyStr ''30'') ''female'' = Inr True \<and>
   recommend_inner (PyStr ''30'') ''female'' [tree_pose] ({1, 2}, [child_pose, tree_pose]) =
     Inr ({1, 2}, [child_pose, tree_pose])"
proof -
  have id: "doc_id tree_pose \<in> {1, 2}" by (simp add: tree_pose_def)
  from recommend_asanas_distinct_ids
    [of example_hub example_l2 example_recommender "''stress relief''" "PyStr ''30''"
      "''female''" example_built "[child_pose, tree_pose]" tree_pose "{1, 2}" True "[]"
      "[child_pose, tree_pose]"]
  show ?thesis using example_run example_admits(3) id by simp
qed

text \<open>
  C4, as the code has it. Line 68 catches \<^verbatim>\<open>ValueError\<close> alone. When the age field of
  a catalog entry is a string that \<^verbatim>\<open>int\<close> does not parse (the string \<^verbatim>\<open>All\<close>, say),
  the asana's age is \<open>0\<close>: for every user age \<open>n \<ge> 0\<close> the age test holds and the
  condition of line 71 is the gender test alone. When the age field is \<^verbatim>\<open>None\<close>,
  \<^verbatim>\<open>int\<close> raises \<^verbatim>\<open>TypeError\<close>, which is not caught: the asana has no age, and the
  condition raises.
\<close>

theorem asana_age_unparsable_is_zero:
  "(doc_age a = Some (PyStr t) \<longrightarrow> int_of_str t = None \<longrightarrow>
      asana_age a = Inr 0 \<and>
      (py_int age = Inr n \<longrightarrow> 0 \<le> n \<longrightarrow> admits a age gender = gender_matches a gender)) \<and>
   (doc_age a = Some PyNone \<longrightarrow>
      asana_age a = Inl TypeError \<and> admits a age gender = Inl TypeError)"
proof (intro conjI impI)
  assume "doc_age a = Some (PyStr t)" "int_of_str t = None"
  then show zero: "asana_age a = Inr 0" by (simp add: asana_age_cases)
  assume "py_int age = Inr n" "0 \<le> n"
  with zero show "admits a age gender = gender_matches a gender" by (simp add: admits_def)
next
  assume "doc_age a = Some PyNone"
  then show null: "asana_age a = Inl TypeError" by (simp add: asana_age_cases)
  then show "admits a age gender = Inl TypeError" by (simp add: admits_def)
qed

text \<open>
  The child pose of the example has the age \<^verbatim>\<open>All\<close>, the warrior pose the age
  \<^verbatim>\<open>None\<close>.
\<close>

theorem asana_age_unparsable_is_zero_witness:
  "doc_age child_pose = Some (PyStr ''All'') \<and> int_of_str ''All'' = None \<and>
   asana_age child_pose = Inr 0 \<and> py_int (PyStr ''30'') = Inr 30 \<and>
   admits child_pose (PyStr ''30'') ''female'' = gender_matches child_pose ''female'' \<and>
   admits child_pose (PyStr ''30'') ''female'' = Inr True \<and>
   doc_age warrior_pose = Some PyNone \<and>
   asana_age warrior_pose = Inl TypeError \<and>
   admits warrior_pose (PyStr ''30'') ''female'' = Inl TypeError"
proof -
  have age: "doc_age child_pose = Some (PyStr ''All'')" by (simp add: child_pose_def)
  have null: "doc_age warrior_pose = Some PyNone" by (simp add: warrior_pose_def)
  have le: "(0::int) \<le> 30" by simp
  note str = asana_age_unparsable_is_zero
      [of child_pose "''All''" "PyStr ''30''" 30 "''female''", THEN conjunct1, THEN mp,
        THEN mp, OF age example_py_int(3)]
  note z = str [THEN conjunct1]
  note g = str [THEN conjunct2, THEN mp, THEN mp, OF example_py_int(1) le]
  note non = asana_age_unparsable_is_zero
      [of warrior_pose "''All''" "PyStr ''30''" 30 "''female''", THEN conjunct2, THEN mp,
        OF null]
  show ?thesis
    by (intro conjI age example_py_int(3) z example_py_int(1) g example_admits(1) null
        non [THEN conjunct1] non [THEN conjunct2])
qed

text \<open>
  An age field that is \<^verbatim>\<open>None\<close> does not parse as an integer either, and it is not
  treated as \<open>0\<close>: the request that reaches the warrior pose raises \<^verbatim>\<open>TypeError\<close>.
\<close>

theorem null_age_counterexample:
  "doc_age warrior_pose = Some PyNone \<and> py_int PyNone = Inl TypeError \<and>
   asana_age warrior_pose = Inl TypeError \<and>
   recommend_asanas example_hub example_l2 null_age_recommender ''balance''
     (PyStr ''30'') ''female'' = Inl TypeError"
  using null_age_admits(1) null_age_run by (simp add: warrior_pose_def)

text \<open>
  C10. For a catalog entry with no gender field and a requested gender other than
  \<^verbatim>\<open>all\<close>, the gender test raises \<^verbatim>\<open>KeyError\<close>: the default \<^verbatim>\<open>"all"\<close> is
  read by the first operand only, which is true for the request \<^verbatim>\<open>all\<close> alone. So
  when the age test of such an entry holds, the condition raises, and
  \<^verbatim>\<open>recommend_asanas\<close> raises on every query that reaches the entry.
\<close>

theorem missing_gender_raises_KeyError:
  assumes "doc_gender a = None" and "gender \<noteq> ''all''"
  shows "gender_matches a gender = Inl KeyError \<and> gender_matches a ''all'' = Inr True \<and>
     (asana_age a = Inr min_age \<longrightarrow> py_int age = Inr n \<longrightarrow> min_age \<le> n \<longrightarrow>
        admits a age gender = Inl KeyError \<and>
        (find_all_matching_benefits hub l2 s user_input (6 / 10) = Inr (s1, matching) \<longrightarrow>
         benefit \<in> set matching \<longrightarrow> a \<in> set (dict_get (asana_map s) benefit) \<longrightarrow>
         (\<exists>e. recommend_asanas hub l2 s user_input age gender = Inl e)))"
proof -
  from assms have g: "gender_matches a gender = Inl KeyError"
    by (auto simp: gender_matches_def lower_def lower_char_def)
  from assms have all: "gender_matches a ''all'' = Inr True"
    by (simp add: gender_matches_def lower_def lower_char_def)
  have "admits a age gender = Inl KeyError \<and>
        (find_all_matching_benefits hub l2 s user_input (6 / 10) = Inr (s1, matching) \<longrightarrow>
         benefit \<in> set matching \<longrightarrow> a \<in> set (dict_get (asana_map s) benefit) \<longrightarrow>
         (\<exists>e. recommend_asanas hub l2 s user_input age gender = Inl e))"
    if age: "asana_age a = Inr min_age" "py_int age = Inr n" "min_age \<le> n"
  proof (intro conjI impI)
    from age g show adm: "admits a age gender = Inl KeyError" by (simp add: admits_def)
    assume m: "find_all_matching_benefits hub l2 s user_input (6 / 10) = Inr (s1, matching)"
      and b: "benefit \<in> set matching" and a: "a \<in> set (dict_get (asana_map s) benefit)"
    from a b have "a \<in> set (concat (map (dict_get (asana_map s)) matching))" by auto
    from recommend_inner_raises [OF this adm]
    obtain e where "recommend_inner age gender (concat (map (dict_get (asana_map s)) matching))
        ({}, []) = Inl e" by blast
    then show "\<exists>e. recommend_asanas hub l2 s user_input age gender = Inl e"
      unfolding recommend_asanas_matching [OF m] by simp
  qed
  with g all show ?thesis by blast
qed

text \<open>The cobra pose of the example has no gender field.\<close>

theorem missing_gender_raises_KeyError_witness:
  "doc_gender cobra_pose = None \<and> ''female'' \<noteq> ''all'' \<and>
   gender_matches cobra_pose ''female'' = Inl KeyError \<and>
   gender_matches cobra_pose ''all'' = Inr True \<and>
   asana_age cobra_pose = Inr 0 \<and> py_int (PyStr ''30'') = Inr 30 \<and>
   admits cobra_pose (PyStr ''30'') ''female'' = Inl KeyError \<and>
   find_all_matching_benefits example_hub example_l2 example_recommender ''posture'' (6 / 10) =
     Inr (example_built, [''posture'']) \<and>
   cobra_pose \<in> set (dict_get (asana_map example_recommender) ''posture'') \<and>
   recommend_asanas example_hub example_l2 example_recommender ''posture'' (PyStr ''30'') ''female'' =
     Inl KeyError \<and>
   recommend_asanas example_hub example_l2 example_recommender ''posture'' (PyStr ''30'') ''all'' =
     Inr (example_built, [cobra_pose])"
proof -
  have gen: "doc_gender cobra_pose = None" by (simp add: cobra_pose_def)
  have ne: "''female'' \<noteq> ''all''" by simp
  have age: "asana_age cobra_pose = Inr 0" by (simp add: asana_age_cases cobra_pose_def)
  have mem: "cobra_pose \<in> set (dict_get (asana_map example_recommender) ''posture'')"
    by (simp add: example_asana_map)
  from missing_gender_raises_KeyError [OF gen ne, of 0 "PyStr ''30''" 30 example_hub example_l2
      example_recommender "''posture''" example_built "[''posture'']" "''posture''"]
  show ?thesis
    using gen age mem example_py_int(1) example_search_posture example_run_posture by simp
qed

text \<open>
  C5, as the code has it. \<^verbatim>\<open>int(age)\<close> is evaluated inside the loops, once for every
  asana examined, and nowhere before them. Let the user's age not parse. When the matching
  of the query raises, that exception is the outcome. When it returns,
  \<^verbatim>\<open>recommend_asanas\<close> raises at the first asana of the first matched benefit (the
  exception of \<^verbatim>\<open>int(age)\<close>, unless the age field of that asana raises first); and when
  the matched benefits hold no asana, the age is never looked at and the result is the
  empty list.
\<close>

theorem unparsable_user_age:
  assumes "py_int age = Inl e"
  shows "(find_all_matching_benefits hub l2 s user_input (6 / 10) = Inr (s1, matching) \<longrightarrow>
      recommend_asanas hub l2 s user_input age gender =
        (case concat (map (dict_get (asana_map s)) matching) of
           [] \<Rightarrow> Inr (s1, [])
         | a # rest \<Rightarrow> (case asana_age a of Inl e' \<Rightarrow> Inl e' | Inr min_age \<Rightarrow> Inl e))) \<and>
     (find_all_matching_benefits hub l2 s user_input (6 / 10) = Inl e'' \<longrightarrow>
      recommend_asanas hub l2 s user_input age gender = Inl e'')"
proof (intro conjI impI)
  assume m: "find_all_matching_benefits hub l2 s user_input (6 / 10) = Inr (s1, matching)"
  have "(case recommend_inner age gender xs ({}, []) of
           Inl x \<Rightarrow> Inl x
         | Inr (seen, recommended) \<Rightarrow> Inr (s1, recommended)) =
        (case xs of
           [] \<Rightarrow> Inr (s1, [])
         | a # rest \<Rightarrow> (case asana_age a of Inl e' \<Rightarrow> Inl e' | Inr min_age \<Rightarrow> Inl e))" for xs
    by (cases xs) (simp_all add: admits_user_age_error [OF assms] split: sum.splits)
  then show "recommend_asanas hub l2 s user_input age gender =
        (case concat (map (dict_get (asana_map s)) matching) of
           [] \<Rightarrow> Inr (s1, [])
         | a # rest \<Rightarrow> (case asana_age a of Inl e' \<Rightarrow> Inl e' | Inr min_age \<Rightarrow> Inl e))"
    unfolding recommend_asanas_matching [OF m] .
next
  assume "find_all_matching_benefits hub l2 s user_input (6 / 10) = Inl e''"
  then show "recommend_asanas hub l2 s user_input age gender = Inl e''"
    unfolding recommend_asanas_def by simp
qed

text \<open>
  The age \<^verbatim>\<open>abc\<close> with a query that matches a benefit, and with a catalog of no asana,
  where line 47 raises. The separator 28 before the digits is no whitespace for
  \<^verbatim>\<open>int\<close>.
\<close>

theorem unparsable_user_age_witness:
  "py_int (PyStr ''abc'') = Inl ValueError \<and>
   py_int (PyStr (CHR 0x1C # ''50'')) = Inl ValueError \<and>
   find_all_matching_benefits example_hub example_l2 example_recommender ''stress relief'' (6 / 10) =
     Inr (example_built, [''stress relief'']) \<and>
   concat (map (dict_get (asana_map example_recommender)) [''stress relief'']) =
     [child_pose, tree_pose] \<and>
   asana_age child_pose = Inr 0 \<and>
   recommend_asanas example_hub example_l2 example_recommender ''stress relief''
     (PyStr ''abc'') ''female'' = Inl ValueError \<and>
   find_all_matching_benefits example_hub example_l2 empty_recommender ''back pain'' (6 / 10) =
     Inl IndexError \<and>
   recommend_asanas example_hub example_l2 empty_recommender ''back pain''
     (PyStr ''abc'') ''female'' = Inl IndexError"
proof -
  have age: "asana_age child_pose = Inr 0"
    by (simp add: asana_age_cases child_pose_def example_py_int)
  have sep: "py_int (PyStr (CHR 0x1C # ''50'')) = Inl ValueError"
    by (simp add: example_int_of_str)
  note full = unparsable_user_age
      [OF example_py_int(2), of example_hub example_l2 example_recommender "''stress relief''"
        example_built "[''stress relief'']" "''female''" IndexError,
        THEN conjunct1, THEN mp, OF example_search]
  have run: "recommend_asanas example_hub example_l2 example_recommender ''stress relief''
     (PyStr ''abc'') ''female'' = Inl ValueError"
    unfolding full example_candidates by (simp add: age)
  note none = unparsable_user_age
      [OF example_py_int(2), of example_hub example_l2 empty_recommender "''back pain''"
        example_built "[]" "''female''" IndexError,
        THEN conjunct2, THEN mp, OF empty_search]
  show ?thesis
    by (intro conjI example_py_int(2) sep example_search example_candidates(1) age run
        empty_search none)
qed

text \<open>
  The age \<^verbatim>\<open>abc\<close> with a query that matches no benefit: no exception, an empty list.
\<close>

theorem unparsable_user_age_no_candidates_counterexample:
  "py_int (PyStr ''abc'') = Inl ValueError \<and>
   recommend_asanas example_hub example_l2 example_recommender ''unrelated concern''
     (PyStr ''abc'') ''female'' = Inr (example_built, [])"
  using example_py_int(2) example_run_unrelated by simp

text \<open>
  C1, as the code has it. Only the gender of the catalog entry is lowercased; the requested
  gender is compared as it was given. For an asana \<open>a\<close> of a matched benefit whose gender
  is a string \<open>g\<close>, in a run that returns and a catalog with distinct identifiers:
  \<open>a\<close> is in the result if and only if its age is at most the user's age and
  \<open>lower g\<close> is the requested gender or \<^verbatim>\<open>all\<close>.
\<close>

theorem inclusion_rule:
  assumes "recommend_asanas hub l2 s user_input age gender = Inr (s', recommended)"
    and "find_all_matching_benefits hub l2 s user_input (6 / 10) = Inr (s1, matching)"
    and "benefit \<in> set matching" and "a \<in> set (dict_get (asana_map s) benefit)"
    and "inj_on doc_id (set (concat (map (dict_get (asana_map s)) matching)))"
    and "doc_gender a = Some (PyStr g)"
  shows "\<exists>min_age n. asana_age a = Inr min_age \<and> py_int age = Inr n \<and>
     (a \<in> set recommended \<longleftrightarrow> min_age \<le> n \<and> (lower g = gender \<or> lower g = ''all''))"
proof -
  note member = recommend_asanas_member [OF assms(1,2,3,4,5)]
  then obtain b where "admits a age gender = Inr b" by blast
  from admits_Inr_ages [OF this] obtain min_age n
    where ages: "asana_age a = Inr min_age" "py_int age = Inr n" by blast
  from member admits_string_gender [OF ages assms(6), of gender] ages
  show ?thesis by simp
qed

text \<open>The child pose in the example run.\<close>

theorem inclusion_rule_witness:
  "recommend_asanas example_hub example_l2 example_recommender ''stress relief''
      (PyStr ''30'') ''female'' = Inr (example_built, [child_pose, tree_pose]) \<and>
   find_all_matching_benefits example_hub example_l2 example_recommender ''stress relief'' (6 / 10) =
     Inr (example_built, [''stress relief'']) \<and>
   child_pose \<in> set (dict_get (asana_map example_recommender) ''stress relief'') \<and>
   inj_on doc_id (set (concat (map (dict_get (asana_map example_recommender)) [''stress relief'']))) \<and>
   doc_gender child_pose = Some (PyStr ''Female'') \<and>
   asana_age child_pose = Inr 0 \<and> py_int (PyStr ''30'') = Inr 30 \<and>
   child_pose \<in> set [child_pose, tree_pose] \<and> lower ''Female'' = ''female''"
proof -
  have mem: "child_pose \<in> set (dict_get (asana_map example_recommender) ''stress relief'')"
    by (simp add: example_asana_map)
  have inj: "inj_on doc_id
      (set (concat (map (dict_get (asana_map example_recommender)) [''stress relief''])))"
    unfolding example_candidates by (simp add: child_pose_def tree_pose_def)
  have gen: "doc_gender child_pose = Some (PyStr ''Female'')" by (simp add: child_pose_def)
  have b: "''stress relief'' \<in> set [''stress relief'']" by simp
  have age: "asana_age child_pose = Inr 0"
    by (simp add: asana_age_cases child_pose_def example_py_int)
  have low: "lower ''Female'' = ''female''" by (simp add: lower_def lower_char_def)
  from inclusion_rule [OF example_run example_search b mem inj gen]
  have "child_pose \<in> set [child_pose, tree_pose]"
    using age example_py_int(1) low by simp
  then show ?thesis
    by (intro conjI example_run example_search mem inj gen age example_py_int(1) low)
qed

text \<open>
  The request \<^verbatim>\<open>Female\<close> does not select what the request \<^verbatim>\<open>female\<close> selects: an
  asana whose gender is \<^verbatim>\<open>Female\<close> is returned for \<^verbatim>\<open>female\<close> and not for
  \<^verbatim>\<open>Female\<close>.
\<close>

theorem requested_gender_case_counterexample:
  "doc_gender child_pose = Some (PyStr ''Female'') \<and>
   recommend_asanas example_hub example_l2 example_recommender ''back pain''
     (PyStr ''30'') ''female'' = Inr (example_built, [child_pose]) \<and>
   recommend_asanas example_hub example_l2 example_recommender ''back pain''
     (PyStr ''30'') ''Female'' = Inr (example_built, [])"
  using example_run_back_pain by (simp add: child_pose_def)

text \<open>
  C6. An asana of a matched benefit whose gender is \<^verbatim>\<open>all\<close> in any letter case and
  whose age is at most the user's age is in the result for every requested gender: in
  every run that returns, and the run does return when the entries of the matched benefits
  are well typed.
\<close>

theorem all_gender_asana_included:
  assumes "find_all_matching_benefits hub l2 s user_input (6 / 10) = Inr (s1, matching)"
    and "benefit \<in> set matching" and "a \<in> set (dict_get (asana_map s) benefit)"
    and "inj_on doc_id (set (concat (map (dict_get (asana_map s)) matching)))"
    and "doc_gender a = Some (PyStr g)" and "lower g = ''all''"
    and "asana_age a = Inr min_age" and "py_int age = Inr n" and "min_age \<le> n"
  shows "(recommend_asanas hub l2 s user_input age gender = Inr (s', recommended) \<longrightarrow>
           a \<in> set recommended) \<and>
         ((\<forall>c\<in>set (concat (map (dict_get (asana_map s)) matching)). well_typed c) \<longrightarrow>
           (\<exists>recommended. recommend_asanas hub l2 s user_input age gender =
              Inr (s1, recommended) \<and> a \<in> set recommended))"
proof -
  let ?xs = "concat (map (dict_get (asana_map s)) matching)"
  have "admits a age gender = Inr True"
    using admits_string_gender [OF assms(7,8,5), of gender] assms(6,9) by simp
  then have incl: "a \<in> set r"
    if "recommend_asanas hub l2 s user_input age gender = Inr (t, r)" for t r
    using recommend_asanas_member [OF that assms(1,2,3,4)] by simp
  have "\<exists>r. recommend_asanas hub l2 s user_input age gender = Inr (s1, r) \<and> a \<in> set r"
    if wt: "\<forall>c\<in>set ?xs. well_typed c"
  proof -
    from wt have "\<forall>c\<in>set ?xs. \<exists>ok. admits c age gender = Inr ok"
      using well_typed_admits [OF _ assms(8)] by blast
    then obtain st where "recommend_inner age gender ?xs ({}, []) = Inr st"
      using recommend_inner_returns [of age gender ?xs "({}, [])"] by blast
    then have "recommend_asanas hub l2 s user_input age gender = Inr (s1, snd st)"
      unfolding recommend_asanas_matching [OF assms(1)] by (simp split: prod.splits)
    with incl show ?thesis by blast
  qed
  with incl show ?thesis by blast
qed

text \<open>The tree pose, whose gender is \<^verbatim>\<open>All\<close>, for the request \<^verbatim>\<open>male\<close>.\<close>

theorem all_gender_asana_included_witness:
  "find_all_matching_benefits example_hub example_l2 example_recommender ''stress relief'' (6 / 10) =
     Inr (example_built, [''stress relief'']) \<and>
   tree_pose \<in> set (dict_get (asana_map example_recommender) ''stress relief'') \<and>
   inj_on doc_id (set (concat (map (dict_get (asana_map example_recommender)) [''stress relief'']))) \<and>
   doc_gender tree_pose = Some (PyStr ''All'') \<and> lower ''All'' = ''all'' \<and>
   asana_age tree_pose = Inr 10 \<and> py_int (PyStr ''30'') = Inr 30 \<and>
   well_typed child_pose \<and> well_typed tree_pose \<and>
   recommend_asanas example_hub example_l2 example_recommender ''stress relief''
      (PyStr ''30'') ''male'' = Inr (example_built, [tree_pose]) \<and>
   tree_pose \<in> set [tree_pose]"
proof -
  have mem: "tree_pose \<in> set (dict_get (asana_map example_recommender) ''stress relief'')"
    by (simp add: example_asana_map)
  have inj: "inj_on doc_id
      (set (concat (map (dict_get (asana_map example_recommender)) [''stress relief''])))"
    unfolding example_candidates by (simp add: child_pose_def tree_pose_def)
  have gen: "doc_gender tree_pose = Some (PyStr ''All'')" by (simp add: tree_pose_def)
  have b: "''stress relief'' \<in> set [''stress relief'']" by simp
  have age: "asana_age tree_pose = Inr 10" by (simp add: asana_age_cases tree_pose_def)
  have low: "lower ''All'' = ''all''" by (simp add: lower_def lower_char_def)
  have le: "(10::int) \<le> 30" by simp
  have wt: "well_typed child_pose" "well_typed tree_pose"
    by (simp_all add: well_typed_def child_pose_def tree_pose_def)
  from all_gender_asana_included
    [OF example_search b mem inj gen low age example_py_int(1) le,
      of "''male''" example_built "[tree_pose]"]
  have "tree_pose \<in> set [tree_pose]"
    using example_run_male by simp
  then show ?thesis
    by (intro conjI example_search mem inj gen age example_py_int(1) low wt example_run_male)
qed

text \<open>
  C3. On a recommender whose index, if built, is consistent with its vocabulary, and whose
  model loads, \<^verbatim>\<open>find_all_matching_benefits\<close> searches the index with \<open>k\<close> the size of
  the vocabulary and returns exactly the labels of the vocabulary whose distance to the
  query is strictly below the threshold, each as often as the vocabulary holds it: never
  more labels than the vocabulary has, and the empty list, not an exception, when no
  distance is below the threshold. The vocabulary is taken non-empty: with an empty one
  no build succeeds, as line 47 raises.
\<close>

theorem find_all_matching_benefits_exact:
  assumes "consistent s" and "build_faiss_index hub s = Inr s1" and "model s1 = Some encode"
    and "health_benefits s \<noteq> []"
  shows "\<exists>labels.
     find_all_matching_benefits hub l2 s user_input threshold = Inr (s1, labels) \<and>
     select_labels (health_benefits s) threshold
       (IndexFlatL2_search l2 (map encode (health_benefits s)) (encode user_input)
          (length (health_benefits s))) = Inr labels \<and>
     mset labels =
       mset (filter (\<lambda>b. l2 (encode user_input) (encode b) < threshold) (health_benefits s)) \<and>
     length labels \<le> length (health_benefits s) \<and>
     ((\<forall>b\<in>set (health_benefits s). \<not> l2 (encode user_input) (encode b) < threshold) \<longrightarrow>
        labels = [])"
proof -
  let ?hb = "health_benefits s"
  let ?q = "encode user_input"
  let ?res = "IndexFlatL2_search l2 (map encode ?hb) ?q (length ?hb)"
  let ?labels = "map (\<lambda>p. ?hb ! snd p) (filter (\<lambda>p. fst p < threshold) ?res)"
  from build_faiss_index_consistent [OF assms(1,2)] assms(3)
  have idx: "index s1 = Some (map encode ?hb)" by auto
  have hb1: "health_benefits s1 = ?hb"
    using build_faiss_index_fields [OF assms(2)] by simp
  have nth: "map (\<lambda>i. (l2 ?q (map encode ?hb ! i), i)) [0..<length ?hb] =
        map (\<lambda>i. (l2 ?q (encode (?hb ! i)), i)) [0..<length ?hb]"
    by (rule map_cong) simp_all
  have "?res = sort_key fst (map (\<lambda>i. (l2 ?q (map encode ?hb ! i), i)) [0..<length ?hb])"
    using IndexFlatL2_search_all [of l2 "map encode ?hb" ?q] by simp
  then have res: "?res = sort_key fst (map (\<lambda>i. (l2 ?q (encode (?hb ! i)), i)) [0..<length ?hb])"
    by (simp only: nth)
  have "\<forall>p\<in>set ?res. snd p < length ?hb"
    unfolding res by auto
  from select_labels_in_range [OF this]
  have sel: "select_labels ?hb threshold ?res = Inr ?labels" .
  have run: "find_all_matching_benefits hub l2 s user_input threshold = Inr (s1, ?labels)"
    by (simp add: find_all_matching_benefits_def assms(2,3) idx hb1 sel)
  have ms: "mset ?labels = mset (filter (\<lambda>b. l2 ?q (encode b) < threshold) ?hb)"
    unfolding res by (rule labels_mset)
  have "length ?labels \<le> length ?res" by simp
  also have "length ?res = length ?hb" unfolding res by simp
  finally have len: "length ?labels \<le> length ?hb" .
  have "?labels = []" if "\<forall>b\<in>set ?hb. \<not> l2 ?q (encode b) < threshold"
  proof -
    from that have "filter (\<lambda>b. l2 ?q (encode b) < threshold) ?hb = []"
      by (simp add: filter_empty_conv)
    with ms show ?thesis by (simp del: map_is_Nil_conv mset_map)
  qed
  with run sel ms len show ?thesis by blast
qed

text \<open>The example queries: one label within the threshold, and none.\<close>

theorem find_all_matching_benefits_exact_witness:
  "consistent example_recommender \<and>
   build_faiss_index example_hub example_recommender = Inr example_built \<and>
   model example_built = Some example_encode \<and>
   health_benefits example_recommender \<noteq> [] \<and>
   find_all_matching_benefits example_hub example_l2 example_recommender ''stress relief'' (6 / 10) =
     Inr (example_built, [''stress relief'']) \<and>
   mset [''stress relief''] =
     mset (filter (\<lambda>b. example_l2 (example_encode ''stress relief'') (example_encode b) < 6 / 10)
       (health_benefits example_recommender)) \<and>
   find_all_matching_benefits example_hub example_l2 example_recommender ''unrelated concern'' (6 / 10) =
     Inr (example_built, [])"
proof -
  have c: "consistent example_recommender"
    unfolding example_recommender_def by (rule consistent_YogaAsanaRecommender)
  have m: "model example_built = Some example_encode" by (simp add: example_built_def)
  have ne: "health_benefits example_recommender \<noteq> []" by (simp add: example_vocabulary)
  from find_all_matching_benefits_exact [OF c example_build m ne, of example_l2 "''stress relief''" "6 / 10"]
  have "mset [''stress relief''] =
     mset (filter (\<lambda>b. example_l2 (example_encode ''stress relief'') (example_encode b) < 6 / 10)
       (health_benefits example_recommender))"
    unfolding example_search by simp
  then show ?thesis
    by (intro conjI c example_build m ne example_search example_search_unrelated)
qed

text \<open>
  C9. A recommender that has an index keeps it: \<^verbatim>\<open>build_faiss_index\<close> returns the
  recommender as it is, whatever its index holds and whatever the model source would
  answer, so nothing is loaded, encoded or rebuilt. After a build that succeeded the index
  is there, hence every further call is of that kind. \<^verbatim>\<open>load_model\<close> leaves a loaded
  model alone. The constructor sets neither the model nor the index; the model source is
  asked at the first build, whose failure is the source's failure.
\<close>

theorem build_faiss_index_idempotent:
  "(index s = Some xb \<longrightarrow> build_faiss_index hub s = Inr s) \<and>
   (build_faiss_index hub s = Inr s1 \<longrightarrow>
      index s1 \<noteq> None \<and> build_faiss_index hub' s1 = Inr s1) \<and>
   (model s = Some m \<longrightarrow> load_model hub s = Inr s) \<and>
   model (YogaAsanaRecommender list_of_set docs :: 'v recommender) = None \<and>
   index (YogaAsanaRecommender list_of_set docs :: 'v recommender) = None \<and>
   (hub ''jashwanthakula26/yoga-asana-model'' = Inl e \<longrightarrow>
      build_faiss_index hub (YogaAsanaRecommender list_of_set docs) = Inl e)"
proof (intro conjI impI)
  assume "index s = Some xb"
  then show "build_faiss_index hub s = Inr s" by (simp add: build_faiss_index_def)
next
  assume b: "build_faiss_index hub s = Inr s1"
  then show "index s1 \<noteq> None"
    by (auto simp: build_faiss_index_def split: option.splits sum.splits if_splits)
  then show "build_faiss_index hub' s1 = Inr s1"
    by (auto simp: build_faiss_index_def split: option.splits)
next
  assume "model s = Some m"
  then show "load_model hub s = Inr s" by (simp add: load_model_def)
next
  show "model (YogaAsanaRecommender list_of_set docs :: 'v recommender) = None"
    by (simp add: YogaAsanaRecommender_def split: prod.splits)
  show "index (YogaAsanaRecommender list_of_set docs :: 'v recommender) = None"
    by (simp add: YogaAsanaRecommender_def split: prod.splits)
next
  assume "hub ''jashwanthakula26/yoga-asana-model'' = Inl e"
  then show "build_faiss_index hub (YogaAsanaRecommender list_of_set docs) = Inl e"
    by (simp add: build_faiss_index_def load_model_def YogaAsanaRecommender_def split: prod.splits)
qed

text \<open>
  A recommender whose index holds one other vector than the three a build would store: a
  call with a failing source returns it with that index. Then the example recommender,
  built once and asked again with a failing source.
\<close>

theorem build_faiss_index_idempotent_witness:
  "index stale_built = Some [42] \<and>
   map example_encode (health_benefits stale_built) \<noteq> [42] \<and>
   build_faiss_index (\<lambda>name. Inl ModelUnavailable) stale_built = Inr stale_built \<and>
   build_faiss_index example_hub example_recommender = Inr example_built \<and>
   index example_built \<noteq> None \<and>
   build_faiss_index (\<lambda>name. Inl ModelUnavailable) example_built = Inr example_built \<and>
   model example_built = Some example_encode \<and>
   load_model (\<lambda>name. Inl ModelUnavailable) example_built = Inr example_built \<and>
   model example_recommender = None \<and> index example_recommender = None \<and>
   build_faiss_index (\<lambda>name. Inl ModelUnavailable) example_recommender = Inl ModelUnavailable"
proof -
  have m: "model example_built = Some example_encode" by (simp add: example_built_def)
  have st: "index stale_built = Some [42]" by (simp add: stale_built_def)
  have ne: "map example_encode (health_benefits stale_built) \<noteq> [42]"
    by (simp add: stale_built_def example_built_def example_vocabulary)
  note stale = build_faiss_index_idempotent
      [of stale_built "[42]" "\<lambda>name. Inl ModelUnavailable" stale_built example_hub
        example_encode rev example_catalog ModelUnavailable]
  have 0: "build_faiss_index (\<lambda>name. Inl ModelUnavailable) stale_built = Inr stale_built"
    using stale [THEN conjunct1, THEN mp, OF st] .
  note fresh = build_faiss_index_idempotent
      [of example_recommender "[42]" "\<lambda>name. Inl ModelUnavailable" example_built example_hub
        example_encode rev example_catalog ModelUnavailable]
  have f: "build_faiss_index (\<lambda>name. Inl ModelUnavailable) example_recommender = Inl ModelUnavailable"
    unfolding example_recommender_def
    by (rule fresh [THEN conjunct2, THEN conjunct2, THEN conjunct2, THEN conjunct2,
          THEN conjunct2, THEN mp]) simp
  note first = build_faiss_index_idempotent
      [of example_recommender "[42]" example_hub example_built "\<lambda>name. Inl ModelUnavailable"
        example_encode rev example_catalog ModelUnavailable]
  from first [THEN conjunct2, THEN conjunct1, THEN mp, OF example_build]
  have 1: "index example_built \<noteq> None"
    and 2: "build_faiss_index (\<lambda>name. Inl ModelUnavailable) example_built = Inr example_built"
    by blast+
  from first [THEN conjunct2, THEN conjunct2, THEN conjunct2]
  have 3: "model example_recommender = None" and 4: "index example_recommender = None"
    unfolding example_recommender_def by blast+
  have 5: "load_model (\<lambda>name. Inl ModelUnavailable) example_built = Inr example_built"
    using build_faiss_index_idempotent
      [of example_built "[42]" "\<lambda>name. Inl ModelUnavailable" example_built example_hub
        example_encode rev example_catalog ModelUnavailable,
        THEN conjunct2, THEN conjunct2, THEN conjunct1, THEN mp, OF m] .
  show ?thesis by (intro conjI st ne 0 example_build 1 2 m 5 3 4 f)
qed

text \<open>
  C8. For every catalog, the asanas in the lists of the reverse index, over all its keys,
  are exactly the asanas of the catalog that have a benefit label; the keys are the
  vocabulary, and the vocabulary has no label twice. \<open>list_of_set\<close> is any
  rearrangement.
\<close>

theorem reverse_index_covers_catalog:
  assumes "\<And>xs. mset (list_of_set xs) = mset xs"
  shows "(\<Union>b\<in>dom (asana_map (YogaAsanaRecommender list_of_set docs)).
            set (dict_get (asana_map (YogaAsanaRecommender list_of_set docs)) b)) =
           {a \<in> set docs. benefits_of a \<noteq> []} \<and>
         set (health_benefits (YogaAsanaRecommender list_of_set docs)) =
           dom (asana_map (YogaAsanaRecommender list_of_set docs)) \<and>
         distinct (health_benefits (YogaAsanaRecommender list_of_set docs))"
proof -
  let ?acc = "index_asanas docs ([], Map.empty)"
  have perm_set: "set (list_of_set xs) = set xs" for xs
    using assms [of xs] by (metis set_mset_mset)
  have perm_distinct: "distinct (list_of_set xs) = distinct xs" for xs
    using assms [of xs] by (metis mset_eq_imp_distinct_iff)
  have dom: "dom (asana_map (YogaAsanaRecommender list_of_set docs)) =
      (\<Union>a\<in>set docs. set (benefits_of a))"
    by (simp add: YogaAsanaRecommender_fields index_asanas_dom)
  have voc: "set (fst ?acc) = (\<Union>a\<in>set docs. set (benefits_of a))" "distinct (fst ?acc)"
    using index_asanas_vocabulary [of docs "[]" Map.empty] by simp_all
  have "(\<Union>b\<in>(\<Union>a\<in>set docs. set (benefits_of a)). {a \<in> set docs. b \<in> set (benefits_of a)}) =
      {a \<in> set docs. benefits_of a \<noteq> []}"
  proof (intro equalityI subsetI)
    fix a assume "a \<in> (\<Union>b\<in>(\<Union>a\<in>set docs. set (benefits_of a)). {a \<in> set docs. b \<in> set (benefits_of a)})"
    then show "a \<in> {a \<in> set docs. benefits_of a \<noteq> []}" by auto
  next
    fix a assume "a \<in> {a \<in> set docs. benefits_of a \<noteq> []}"
    then have a: "a \<in> set docs" and "benefits_of a \<noteq> []" by simp_all
    then obtain b where "b \<in> set (benefits_of a)" by (cases "benefits_of a") auto
    with a show "a \<in> (\<Union>b\<in>(\<Union>a\<in>set docs. set (benefits_of a)). {a \<in> set docs. b \<in> set (benefits_of a)})"
      by blast
  qed
  then have "(\<Union>b\<in>dom (asana_map (YogaAsanaRecommender list_of_set docs)).
            set (dict_get (asana_map (YogaAsanaRecommender list_of_set docs)) b)) =
           {a \<in> set docs. benefits_of a \<noteq> []}"
    by (simp only: dom set_asana_map_entry)
  moreover have "set (health_benefits (YogaAsanaRecommender list_of_set docs)) =
           dom (asana_map (YogaAsanaRecommender list_of_set docs))"
    unfolding dom by (simp only: YogaAsanaRecommender_fields perm_set voc)
  moreover have "distinct (health_benefits (YogaAsanaRecommender list_of_set docs))"
    by (simp only: YogaAsanaRecommender_fields perm_distinct voc)
  ultimately show ?thesis by blast
qed

text \<open>The example catalog, with the vocabulary listed in reverse order of insertion.\<close>

theorem reverse_index_covers_catalog_witness:
  "(\<forall>xs :: string list. mset (rev xs) = mset xs) \<and>
   (\<Union>b\<in>dom (asana_map example_recommender). set (dict_get (asana_map example_recommender) b)) =
     {a \<in> set example_catalog. benefits_of a \<noteq> []} \<and>
   set (health_benefits example_recommender) = dom (asana_map example_recommender) \<and>
   distinct (health_benefits example_recommender) \<and>
   health_benefits example_recommender = [''posture'', ''stress relief'', ''back pain'']"
proof -
  have perm: "mset (rev xs) = mset xs" for xs :: "string list" by simp
  note cover = reverse_index_covers_catalog [of rev example_catalog, OF perm]
  from perm have "\<forall>xs :: string list. mset (rev xs) = mset xs" by blast
  then show ?thesis
    unfolding example_recommender_def
    by (intro conjI cover [THEN conjunct1] cover [THEN conjunct2, THEN conjunct1]
        cover [THEN conjunct2, THEN conjunct2]
        example_vocabulary [unfolded example_recommender_def])
qed

text \<open>
  C7. Let a run over the catalog \<open>docs\<close>, with distinct identifiers, return, and let
  \<open>benefit\<close> be one of the matched benefits. The asanas admitted while the loop is at
  \<open>benefit\<close> are the \<open>chunk\<close> that its inner loop appends to what the earlier benefits
  left; they stay in the result, and they stand there in the order of the catalog. Every
  asana of the benefit's entry that satisfies the condition of line 71 is in the result
  exactly once.
\<close>

theorem shared_benefit_order:
  assumes "distinct (map doc_id docs)"
    and "asana_map s = asana_map (YogaAsanaRecommender list_of_set docs :: 'v recommender)"
    and "find_all_matching_benefits hub l2 s user_input (6 / 10) =
           Inr (s1, before @ benefit # after)"
    and "recommend_asanas hub l2 s user_input age gender = Inr (s', recommended)"
  shows "\<exists>seen earlier chunk seen'.
     recommend_outer (asana_map s) age gender before ({}, []) = Inr (seen, earlier) \<and>
     recommend_inner age gender (dict_get (asana_map s) benefit) (seen, earlier) =
       Inr (seen', earlier @ chunk) \<and>
     prefix (earlier @ chunk) recommended \<and>
     subseq chunk docs \<and>
     (\<forall>a\<in>set (dict_get (asana_map s) benefit).
        admits a age gender = Inr True \<longrightarrow> count_list recommended a = 1)"
proof -
  let ?dg = "dict_get (asana_map s)"
  let ?X = "concat (map ?dg before)"
  let ?E = "?dg benefit"
  let ?Z = "concat (map ?dg after)"
  let ?cand = "concat (map ?dg (before @ benefit # after))"
  let ?A1 = "admitted age gender {} ?X"
  let ?seen1 = "doc_id ` set ?A1"
  let ?chunk = "admitted age gender ?seen1 ?E"
  have cand: "?cand = ?X @ ?E @ ?Z" by simp
  from recommend_asanas_admitted [OF assms(4)] assms(3)
  have ok: "\<forall>a\<in>set ?cand. \<exists>ok. admits a age gender = Inr ok"
    and rec: "recommended = admitted age gender {} ?cand"
    by auto
  \<comment> \<open>the benefits before\<close>
  from ok have "\<forall>a\<in>set ?X. \<exists>ok. admits a age gender = Inr ok" by auto
  then obtain st where st: "recommend_inner age gender ?X ({}, []) = Inr st"
    using recommend_inner_returns [of age gender ?X "({}, [])"] by blast
  from recommend_inner_admitted [OF st] have "st = (?seen1, ?A1)" by simp
  with st have outer: "recommend_outer (asana_map s) age gender before ({}, []) = Inr (?seen1, ?A1)"
    by (simp add: recommend_outer_concat)
  \<comment> \<open>the benefit itself\<close>
  from ok have "\<forall>a\<in>set ?E. \<exists>ok. admits a age gender = Inr ok" by auto
  then obtain st2 where st2: "recommend_inner age gender ?E (?seen1, ?A1) = Inr st2"
    using recommend_inner_returns [of age gender ?E "(?seen1, ?A1)"] by blast
  from recommend_inner_admitted [OF st2]
  have inner: "recommend_inner age gender ?E (?seen1, ?A1) =
      Inr (?seen1 \<union> doc_id ` set ?chunk, ?A1 @ ?chunk)"
    using st2 by simp
  \<comment> \<open>the result\<close>
  have "recommended = (?A1 @ ?chunk) @
      admitted age gender (?seen1 \<union> doc_id ` set ?chunk) ?Z"
    unfolding rec cand by (simp add: admitted_append)
  then have pre: "prefix (?A1 @ ?chunk) recommended" by (rule prefixI)
  \<comment> \<open>the order of the catalog\<close>
  have entry: "?dg b = concat (map (\<lambda>a. replicate (count_list (benefits_of a) b) a) docs)" for b
    unfolding assms(2) by (rule asana_map_entry)
  have sub: "subseq ?chunk docs"
    unfolding entry by (rule subseq_admitted_catalog)
  \<comment> \<open>exactly once\<close>
  have in_docs: "set (?dg b) \<subseteq> set docs" for b
    unfolding assms(2) by (auto simp: set_asana_map_entry)
  then have "set ?cand \<subseteq> set docs" by auto
  moreover from assms(1) have "inj_on doc_id (set docs)" by (simp add: distinct_map)
  ultimately have inj: "inj_on doc_id (set ?cand)" by (rule inj_on_subset [rotated])
  have "distinct (map doc_id recommended)" unfolding rec by (rule distinct_admitted)
  then have dis: "distinct recommended" by (simp add: distinct_map)
  have once: "count_list recommended a = 1"
    if a: "a \<in> set ?E" and adm: "admits a age gender = Inr True" for a
  proof -
    from a have "a \<in> set ?cand" by simp
    from admitted_member [OF this adm _ inj, of "{}"] have "a \<in> set recommended"
      unfolding rec by simp
    with dis show ?thesis by (rule count_list_distinct)
  qed
  from outer inner pre sub once show ?thesis by blast
qed

text \<open>The child pose and the tree pose share the benefit \<^verbatim>\<open>stress relief\<close>.\<close>

theorem shared_benefit_order_witness:
  "distinct (map doc_id example_catalog) \<and>
   find_all_matching_benefits example_hub example_l2 example_recommender ''stress relief'' (6 / 10) =
     Inr (example_built, [] @ ''stress relief'' # []) \<and>
   recommend_asanas example_hub example_l2 example_recommender ''stress relief''
      (PyStr ''30'') ''female'' = Inr (example_built, [child_pose, tree_pose]) \<and>
   recommend_inner (PyStr ''30'') ''female''
      (dict_get (asana_map example_recommender) ''stress relief'') ({}, []) =
     Inr ({1, 2}, [] @ [child_pose, tree_pose]) \<and>
   subseq [child_pose, tree_pose] example_catalog \<and>
   child_pose \<in> set (dict_get (asana_map example_recommender) ''stress relief'') \<and>
   admits child_pose (PyStr ''30'') ''female'' = Inr True \<and>
   count_list [child_pose, tree_pose] child_pose = 1 \<and>
   tree_pose \<in> set (dict_get (asana_map example_recommender) ''stress relief'') \<and>
   admits tree_pose (PyStr ''30'') ''female'' = Inr True \<and>
   count_list [child_pose, tree_pose] tree_pose = 1"
proof -
  have d: "distinct (map doc_id example_catalog)"
    by (simp add: example_catalog_def example_ids)
  have m: "asana_map example_recommender =
      asana_map (YogaAsanaRecommender rev example_catalog :: real recommender)"
    by (simp add: example_recommender_def)
  have f: "find_all_matching_benefits example_hub example_l2 example_recommender ''stress relief''
      (6 / 10) = Inr (example_built, [] @ ''stress relief'' # [])"
    using example_search by simp
  have mem: "child_pose \<in> set (dict_get (asana_map example_recommender) ''stress relief'')"
    "tree_pose \<in> set (dict_get (asana_map example_recommender) ''stress relief'')"
    by (simp_all add: example_asana_map)
  from shared_benefit_order [OF d m f example_run]
  obtain seen earlier chunk seen' where
    o: "recommend_outer (asana_map example_recommender) (PyStr ''30'') ''female'' [] ({}, []) =
          Inr (seen, earlier)"
    and i: "recommend_inner (PyStr ''30'') ''female''
          (dict_get (asana_map example_recommender) ''stress relief'') (seen, earlier) =
          Inr (seen', earlier @ chunk)"
    and sub: "subseq chunk example_catalog"
    and once: "\<forall>a\<in>set (dict_get (asana_map example_recommender) ''stress relief'').
        admits a (PyStr ''30'') ''female'' = Inr True \<longrightarrow>
        count_list [child_pose, tree_pose] a = 1"
    by blast
  from o have se: "seen = {}" "earlier = []" by simp_all
  from i have "chunk = [child_pose, tree_pose]" unfolding se example_inner by simp
  with sub have s: "subseq [child_pose, tree_pose] example_catalog" by simp
  from once mem example_admits(1,3)
  have c: "count_list [child_pose, tree_pose] child_pose = 1"
    "count_list [child_pose, tree_pose] tree_pose = 1" by blast+
  show ?thesis
    by (intro conjI d f example_run example_inner s mem example_admits(1) example_admits(3) c)
qed

end
